theory Spec2Isabelle
  imports Main "HOL-Library.AList" "HOL-Library.Sublist" "HOL-Library.Product_Lexorder"
begin

section \<open>Values, exceptions and the outside world\<close>

text \<open>
  The program of \<^verbatim>\<open>media_cleanup.py\<close> handles decoded JSON and YAML documents: the
  series and episode records of the library manager and the configuration document.
  A Python \<^verbatim>\<open>dict\<close> keeps its insertion order, so an object is an association list;
  numbers are Python's unbounded integers.
\<close>

datatype json =
    JNull
  | JBool bool
  | JInt int
  | JStr string
  | JArr "json list"
  | JObj "(string \<times> json) list"

type_synonym dict = "(string \<times> json) list"

text \<open>
  The exceptions that the modelled code can meet. \<open>RequestException\<close> stands for any
  transport-level error of the HTTP client (connection refused, timeout, bad URL), and
  \<open>HTTPError\<close> is what \<^verbatim>\<open>raise_for_status\<close> raises; both belong to the class
  \<^verbatim>\<open>requests.exceptions.RequestException\<close>. The others are the builtin exceptions, all
  subclasses of \<^verbatim>\<open>Exception\<close>.
\<close>

datatype exn =
    RequestException string
  | HTTPError int
  | KeyError string
  | ValueError string
  | TypeError string
  | AttributeError string
  | OSError string

fun is_RequestException :: "exn \<Rightarrow> bool" where
  "is_RequestException (RequestException _) = True"
| "is_RequestException (HTTPError _) = True"
| "is_RequestException _ = False"

text \<open>
  An f-string is kept as the list of its pieces: literal text, \<^verbatim>\<open>str(v)\<close> of a value
  and \<^verbatim>\<open>str(e)\<close> of an exception.
\<close>

datatype frag = Lit string | Fmt json | FmtExn exn | FmtInt int

type_synonym fstring = "frag list"

datatype log_entry = Info fstring | Error fstring


subsection \<open>Python's operations on decoded documents\<close>

text \<open>\<^verbatim>\<open>bool(v)\<close>: the truth value of a decoded document.\<close>

fun truthy :: "json \<Rightarrow> bool" where
  "truthy JNull = False"
| "truthy (JBool b) = b"
| "truthy (JInt i) = (i \<noteq> 0)"
| "truthy (JStr s) = (s \<noteq> [])"
| "truthy (JArr xs) = (xs \<noteq> [])"
| "truthy (JObj kvs) = (kvs \<noteq> [])"

text \<open>\<^verbatim>\<open>v[k]\<close> with a string key: only a dict accepts it, and a missing key raises.\<close>

fun subscript :: "json \<Rightarrow> string \<Rightarrow> exn + json" where
  "subscript (JObj kvs) k =
     (case map_of kvs k of None \<Rightarrow> Inl (KeyError k) | Some v \<Rightarrow> Inr v)"
| "subscript _ k = Inl (TypeError ''not subscriptable with a str key'')"

text \<open>\<^verbatim>\<open>v.get(k, d)\<close>: only a dict has the method.\<close>

fun get_method :: "json \<Rightarrow> string \<Rightarrow> json \<Rightarrow> exn + json" where
  "get_method (JObj kvs) k d = (case map_of kvs k of None \<Rightarrow> Inr d | Some v \<Rightarrow> Inr v)"
| "get_method _ k d = Inl (AttributeError ''get'')"

text \<open>\<^verbatim>\<open>d.get(k, dflt)\<close> on a value known to be a dict.\<close>

definition dict_get :: "dict \<Rightarrow> string \<Rightarrow> json \<Rightarrow> json" where
  "dict_get kvs k d = (case map_of kvs k of None \<Rightarrow> d | Some v \<Rightarrow> v)"

text \<open>\<^verbatim>\<open>for x in v\<close>: a list gives its elements, a dict its keys, a string its characters.\<close>

fun py_iter :: "json \<Rightarrow> exn + json list" where
  "py_iter (JArr xs) = Inr xs"
| "py_iter (JObj kvs) = Inr (map (\<lambda>kv. JStr (fst kv)) kvs)"
| "py_iter (JStr s) = Inr (map (\<lambda>c. JStr [c]) s)"
| "py_iter _ = Inl (TypeError ''object is not iterable'')"

subsection \<open>HTTP requests and the state of the world\<close>

datatype request =
    HttpGet fstring dict dict
  | HttpPut fstring dict json
  | HttpDelete fstring dict

fun is_mutating :: "request \<Rightarrow> bool" where
  "is_mutating (HttpGet _ _ _) = False"
| "is_mutating (HttpPut _ _ _) = True"
| "is_mutating (HttpDelete _ _) = True"

text \<open>
  A response carries its status code and what \<^verbatim>\<open>response.json()\<close> gives: the decoded
  body, or the exception that decoding raises.
\<close>

record response =
  status_code :: int
  json_body :: "exn + json"

text \<open>
  The library manager answers a request, given the requests issued before it; it either
  raises (a transport error) or delivers a response.
\<close>

type_synonym backend = "request list \<Rightarrow> request \<Rightarrow> exn + response"

text \<open>A directory tree: \<open>list_err\<close> is what listing the directory raises, if anything, and
  \<open>rmdir_err\<close> what removing it raises even when it is empty. The entries of a directory
  are in the order in which a scan gives them. Symbolic links are not part of the tree.\<close>

datatype node =
    File
  | Dir (list_err: "exn option") (rmdir_err: "exn option") (entries: "(string \<times> node) list")

text \<open>A library section of the media server: its type, its title, and what
  \<^verbatim>\<open>section.update()\<close> raises, if anything.\<close>

record plex_section =
  stype :: string
  stitle :: string
  update_err :: "exn option"

record world =
  calls :: "request list"
  logged :: "log_entry list"
  updated :: "string list"
  fs :: node

definition log_info :: "fstring \<Rightarrow> world \<Rightarrow> world" where
  "log_info m w = w\<lparr>logged := logged w @ [Info m]\<rparr>"

definition log_error :: "fstring \<Rightarrow> world \<Rightarrow> world" where
  "log_error m w = w\<lparr>logged := logged w @ [Error m]\<rparr>"

definition issue :: "backend \<Rightarrow> request \<Rightarrow> world \<Rightarrow> (exn + response) \<times> world" where
  "issue b r w = (b (calls w) r, w\<lparr>calls := calls w @ [r]\<rparr>)"

text \<open>\<^verbatim>\<open>response.raise_for_status()\<close>: client and server errors raise.\<close>

definition raise_for_status :: "response \<Rightarrow> exn + unit" where
  "raise_for_status r =
     (if 400 \<le> status_code r \<and> status_code r < 600 then Inl (HTTPError (status_code r))
      else Inr ())"

section \<open>Timestamps\<close>

text \<open>
  A naive \<^verbatim>\<open>datetime\<close>: year, month, day, hour, minute, second, microsecond. Python
  compares two naive values field by field, which is the lexicographic order on the
  tuple.
\<close>

type_synonym datetime = "nat \<times> nat \<times> nat \<times> nat \<times> nat \<times> nat \<times> nat"

definition is_digit :: "char \<Rightarrow> bool" where
  "is_digit c = (c \<in> set ''0123456789'')"

definition digit_val :: "char \<Rightarrow> nat" where
  "digit_val c = of_char c - of_char (CHR ''0'')"

definition int_of_digits :: "string \<Rightarrow> nat" where
  "int_of_digits s = foldl (\<lambda>n c. 10 * n + digit_val c) 0 s"

text \<open>The fields of the format, as the regular expressions of \<^verbatim>\<open>_strptime\<close> accept them.\<close>

definition field_Y :: "string \<Rightarrow> bool" where
  "field_Y s = (length s = 4 \<and> list_all is_digit s)"

fun field_m :: "string \<Rightarrow> bool" where
  "field_m [a, b] = (a = CHR ''1'' \<and> b \<in> set ''012'' \<or> a = CHR ''0'' \<and> b \<in> set ''123456789'')"
| "field_m [a] = (a \<in> set ''123456789'')"
| "field_m _ = False"

fun field_d :: "string \<Rightarrow> bool" where
  "field_d [a, b] =
     (a = CHR ''3'' \<and> b \<in> set ''01'' \<or> a \<in> set ''12'' \<and> is_digit b \<or>
      a = CHR ''0'' \<and> b \<in> set ''123456789'' \<or> a = CHR '' '' \<and> b \<in> set ''123456789'')"
| "field_d [a] = (a \<in> set ''123456789'')"
| "field_d _ = False"

fun field_H :: "string \<Rightarrow> bool" where
  "field_H [a, b] = (a = CHR ''2'' \<and> b \<in> set ''0123'' \<or> a \<in> set ''01'' \<and> is_digit b)"
| "field_H [a] = is_digit a"
| "field_H _ = False"

fun field_M :: "string \<Rightarrow> bool" where
  "field_M [a, b] = (a \<in> set ''012345'' \<and> is_digit b)"
| "field_M [a] = is_digit a"
| "field_M _ = False"

fun field_S :: "string \<Rightarrow> bool" where
  "field_S [a, b] = (a = CHR ''6'' \<and> b \<in> set ''01'' \<or> a \<in> set ''012345'' \<and> is_digit b)"
| "field_S [a] = is_digit a"
| "field_S _ = False"

text \<open>The text before the first separator, and what follows the separator.\<close>

fun split_at :: "char list \<Rightarrow> string \<Rightarrow> (string \<times> string) option" where
  "split_at seps [] = None"
| "split_at seps (c # cs) =
     (if c \<in> set seps then Some ([], cs)
      else (case split_at seps cs of None \<Rightarrow> None | Some (f, r) \<Rightarrow> Some (c # f, r)))"

definition is_leap :: "nat \<Rightarrow> bool" where
  "is_leap y = (y mod 4 = 0 \<and> (y mod 100 \<noteq> 0 \<or> y mod 400 = 0))"

definition days_in_month :: "nat \<Rightarrow> nat \<Rightarrow> nat" where
  "days_in_month y m =
     (if m = 2 then (if is_leap y then 29 else 28)
      else if m \<in> {4, 6, 9, 11} then 30 else 31)"

definition no_match :: "exn + datetime" where
  "no_match = Inl (ValueError ''time data does not match format'')"

text \<open>
  \<^verbatim>\<open>datetime.strptime(s, '%Y-%m-%dT%H:%M:%SZ')\<close> on a string. The format is compiled to
  a regular expression matched without regard to case; every field is followed by a
  literal that no field can contain, so the match cuts the string at the literals. Text
  after the final \<^verbatim>\<open>Z\<close>, a date that does not exist and a second of 60 or 61 all
  raise \<^verbatim>\<open>ValueError\<close>. (Strings are ASCII here: the decimal digits of other scripts,
  which Python's \<^verbatim>\<open>\d\<close> also accepts, are outside the model.)
\<close>

definition parse_fields ::
    "string \<Rightarrow> string \<Rightarrow> string \<Rightarrow> string \<Rightarrow> string \<Rightarrow> string \<Rightarrow> string \<Rightarrow> exn + datetime" where
  "parse_fields Y m d H M S rest =
     (if \<not> (field_Y Y \<and> field_m m \<and> field_d d \<and> field_H H \<and> field_M M \<and> field_S S)
      then no_match
      else if rest \<noteq> [] then Inl (ValueError ''unconverted data remains'')
      else
        (let year = int_of_digits Y; month = int_of_digits m;
             day = int_of_digits (filter is_digit d); hour = int_of_digits H;
             minute = int_of_digits M; second = int_of_digits S
         in if year < 1 then Inl (ValueError ''year is out of range'')
            else if day > days_in_month year month
              then Inl (ValueError ''day is out of range for month'')
            else if second > 59 then Inl (ValueError ''second must be in 0..59'')
            else Inr (year, month, day, hour, minute, second, 0)))"

definition strptime_str :: "string \<Rightarrow> exn + datetime" where
  "strptime_str s =
     (case split_at ''-'' s of None \<Rightarrow> no_match | Some (Y, s1) \<Rightarrow>
     (case split_at ''-'' s1 of None \<Rightarrow> no_match | Some (m, s2) \<Rightarrow>
     (case split_at ''Tt'' s2 of None \<Rightarrow> no_match | Some (d, s3) \<Rightarrow>
     (case split_at '':'' s3 of None \<Rightarrow> no_match | Some (H, s4) \<Rightarrow>
     (case split_at '':'' s4 of None \<Rightarrow> no_match | Some (M, s5) \<Rightarrow>
     (case split_at ''Zz'' s5 of None \<Rightarrow> no_match | Some (S, s6) \<Rightarrow>
        parse_fields Y m d H M S s6))))))"

text \<open>The first argument of \<^verbatim>\<open>strptime\<close> must be a string.\<close>

fun strptime :: "json \<Rightarrow> exn + datetime" where
  "strptime (JStr s) = strptime_str s"
| "strptime _ = Inl (TypeError ''strptime() argument 1 must be str'')"

section \<open>The library manager: \<^verbatim>\<open>SonarrManager\<close>\<close>

record sonarr_manager =
  api_key :: json
  host :: json

definition get_headers :: "sonarr_manager \<Rightarrow> dict" where
  "get_headers m = [(''X-Api-Key'', api_key m), (''Accept'', JStr ''application/json'')]"

text \<open>
  What both fetches do with the outcome of \<^verbatim>\<open>requests.get\<close>: the transport error is
  raised, \<^verbatim>\<open>raise_for_status\<close> raises on a client or server error, and the body is
  decoded.
\<close>

definition fetch_json :: "exn + response \<Rightarrow> exn + json" where
  "fetch_json r =
     (case r of
        Inl e \<Rightarrow> Inl e
      | Inr resp \<Rightarrow>
          (case raise_for_status resp of Inl e \<Rightarrow> Inl e | Inr u \<Rightarrow> json_body resp))"

subsection \<open>\<^verbatim>\<open>get_daily_series\<close>\<close>

text \<open>The comprehension \<^verbatim>\<open>[s for s in series if s['seriesType'] == 'daily']\<close>: the
  first element that cannot be subscripted, or lacks the key, raises.\<close>

fun daily_filter :: "json list \<Rightarrow> exn + dict list" where
  "daily_filter [] = Inr []"
| "daily_filter (JObj s # rest) =
     (case map_of s ''seriesType'' of
        None \<Rightarrow> Inl (KeyError ''seriesType'')
      | Some t \<Rightarrow>
          (case daily_filter rest of
             Inl e \<Rightarrow> Inl e
           | Inr ds \<Rightarrow> Inr (if t = JStr ''daily'' then s # ds else ds)))"
| "daily_filter (x # rest) = Inl (TypeError ''not subscriptable with a str key'')"

definition daily_series_of :: "exn + response \<Rightarrow> exn + dict list" where
  "daily_series_of r =
     (case fetch_json r of
        Inl e \<Rightarrow> Inl e
      | Inr series \<Rightarrow> (case py_iter series of Inl e \<Rightarrow> Inl e | Inr xs \<Rightarrow> daily_filter xs))"

definition series_request :: "sonarr_manager \<Rightarrow> request" where
  "series_request m = HttpGet [Fmt (host m), Lit ''/api/v3/series''] [] (get_headers m)"

definition get_daily_series ::
    "sonarr_manager \<Rightarrow> backend \<Rightarrow> world \<Rightarrow> (exn + dict list) \<times> world" where
  "get_daily_series m b w =
     (case issue b (series_request m) w of
        (r, w1) \<Rightarrow>
          (case daily_series_of r of
             Inr res \<Rightarrow> (Inr res, w1)
           | Inl e \<Rightarrow>
               if is_RequestException e
               then (Inr [], log_error [Lit ''Failed to fetch series from Sonarr: '', FmtExn e] w1)
               else (Inl e, w1)))"

subsection \<open>\<^verbatim>\<open>get_episodes_to_delete\<close>\<close>

text \<open>
  The condition of the comprehension: the air date is parsed first, for every episode,
  and \<^verbatim>\<open>hasFile\<close> is read only when the date is before the threshold.
\<close>

definition eligible :: "datetime \<Rightarrow> dict \<Rightarrow> exn + bool" where
  "eligible threshold_date episode =
     (case map_of episode ''airDateUtc'' of
        None \<Rightarrow> Inl (KeyError ''airDateUtc'')
      | Some a \<Rightarrow>
          (case strptime a of
             Inl e \<Rightarrow> Inl e
           | Inr t \<Rightarrow>
               Inr (t < threshold_date \<and> truthy (dict_get episode ''hasFile'' (JBool False)))))"

fun episode_filter :: "datetime \<Rightarrow> json list \<Rightarrow> exn + dict list" where
  "episode_filter threshold_date [] = Inr []"
| "episode_filter threshold_date (JObj episode # rest) =
     (case eligible threshold_date episode of
        Inl e \<Rightarrow> Inl e
      | Inr keep \<Rightarrow>
          (case episode_filter threshold_date rest of
             Inl e \<Rightarrow> Inl e
           | Inr ds \<Rightarrow> Inr (if keep then episode # ds else ds)))"
| "episode_filter threshold_date (x # rest) =
     Inl (TypeError ''not subscriptable with a str key'')"

definition episodes_of :: "datetime \<Rightarrow> exn + response \<Rightarrow> exn + dict list" where
  "episodes_of threshold_date r =
     (case fetch_json r of
        Inl e \<Rightarrow> Inl e
      | Inr episodes \<Rightarrow>
          (case py_iter episodes of
             Inl e \<Rightarrow> Inl e
           | Inr xs \<Rightarrow> episode_filter threshold_date xs))"

definition episode_request :: "sonarr_manager \<Rightarrow> json \<Rightarrow> request" where
  "episode_request m series_id =
     HttpGet [Fmt (host m), Lit ''/api/v3/episode''] [(''seriesId'', series_id)] (get_headers m)"

definition get_episodes_to_delete ::
    "sonarr_manager \<Rightarrow> backend \<Rightarrow> json \<Rightarrow> datetime \<Rightarrow> world \<Rightarrow> (exn + dict list) \<times> world" where
  "get_episodes_to_delete m b series_id threshold_date w =
     (case issue b (episode_request m series_id) w of
        (r, w1) \<Rightarrow>
          (case episodes_of threshold_date r of
             Inr res \<Rightarrow> (Inr res, w1)
           | Inl e \<Rightarrow>
               if is_RequestException e
               then (Inr [],
                     log_error [Lit ''Failed to fetch episodes for series '', Fmt series_id,
                                Lit '': '', FmtExn e] w1)
               else (Inl e, w1)))"

subsection \<open>\<^verbatim>\<open>process_episode\<close>\<close>

text \<open>
  The two calls of the branch \<^verbatim>\<open>if not dry_run\<close>. The responses are dropped: only an
  exception (a missing key, or a transport error raised by the client) ends the branch.
\<close>

definition unmonitor_and_delete ::
    "sonarr_manager \<Rightarrow> backend \<Rightarrow> dict \<Rightarrow> world \<Rightarrow> (exn + unit) \<times> world" where
  "unmonitor_and_delete m b episode w =
     (let episode1 = AList.update ''monitored'' (JBool False) episode in
      case map_of episode1 ''id'' of
        None \<Rightarrow> (Inl (KeyError ''id''), w)
      | Some i \<Rightarrow>
         (case issue b (HttpPut [Fmt (host m), Lit ''/api/v3/episode/'', Fmt i]
                          (get_headers m) (JObj episode1)) w of
            (Inl e, w1) \<Rightarrow> (Inl e, w1)
          | (Inr resp1, w1) \<Rightarrow>
             (case map_of episode1 ''episodeFileId'' of
                None \<Rightarrow> (Inl (KeyError ''episodeFileId''), w1)
              | Some f \<Rightarrow>
                 (case issue b (HttpDelete [Fmt (host m), Lit ''/api/v3/episodefile/'', Fmt f]
                                  (get_headers m)) w1 of
                    (Inl e, w2) \<Rightarrow> (Inl e, w2)
                  | (Inr resp2, w2) \<Rightarrow> (Inr (), w2)))))"

definition processed_line :: "dict \<Rightarrow> bool \<Rightarrow> fstring" where
  "processed_line episode dry_run =
     [Lit ''Processed Sonarr episode: '', Fmt (dict_get episode ''title'' (JStr ''Unknown'')),
      Lit '' '', Lit ''('', Lit (if dry_run then ''Dry run'' else ''Deleted''), Lit '')'']"

definition process_episode ::
    "sonarr_manager \<Rightarrow> backend \<Rightarrow> dict \<Rightarrow> bool \<Rightarrow> world \<Rightarrow> bool \<times> world" where
  "process_episode m b episode dry_run w =
     (case (if \<not> dry_run then unmonitor_and_delete m b episode w else (Inr (), w)) of
        (Inr u, w1) \<Rightarrow> (True, log_info (processed_line episode dry_run) w1)
      | (Inl e, w1) \<Rightarrow>
          (False,
           log_error [Lit ''Failed to process Sonarr episode '', Fmt (dict_get episode ''id'' JNull),
                      Lit '': '', FmtExn e] w1))"

section \<open>The media server: \<^verbatim>\<open>PlexManager\<close>\<close>

text \<open>The loop of \<^verbatim>\<open>refresh_libraries\<close> over the sections: only the sections of type
  \<^verbatim>\<open>show\<close> are updated, and the first update that raises ends the loop.\<close>

fun refresh_sections :: "plex_section list \<Rightarrow> world \<Rightarrow> exn option \<times> world" where
  "refresh_sections [] w = (None, w)"
| "refresh_sections (s # ss) w =
     (if stype s = ''show''
      then (case update_err s of
              Some e \<Rightarrow> (Some e, w)
            | None \<Rightarrow>
                refresh_sections ss
                  (log_info [Lit ''Refreshed Plex library: '', Lit (stitle s)]
                     (w\<lparr>updated := updated w @ [stitle s]\<rparr>)))
      else refresh_sections ss w)"

text \<open>The server is what \<^verbatim>\<open>self.server.library.sections()\<close> gives: the sections, or the
  exception it raises.\<close>

definition refresh_libraries :: "exn + plex_section list \<Rightarrow> bool \<Rightarrow> world \<Rightarrow> world" where
  "refresh_libraries server dry_run w =
     (case (if \<not> dry_run
            then (case server of Inl e \<Rightarrow> (Some e, w) | Inr ss \<Rightarrow> refresh_sections ss w)
            else (None, w)) of
        (None, w1) \<Rightarrow> w1
      | (Some e, w1) \<Rightarrow> log_error [Lit ''Failed to refresh Plex libraries: '', FmtExn e] w1)"

section \<open>The orchestrator: \<^verbatim>\<open>MediaCleaner\<close>\<close>

subsection \<open>Configuration\<close>

text \<open>
  The dataclass \<^verbatim>\<open>Config\<close>. Nothing checks the types of the values read from the
  document, so the fields taken from it hold whatever the document has; \<^verbatim>\<open>None\<close> is
  \<open>JNull\<close>.
\<close>

record config =
  days_threshold :: json
  media_root :: json
  delete_empty_dirs :: json
  parallel_processing :: json
  max_workers :: json
  dry_run :: json
  sonarr_enabled :: bool
  sonarr_api_key :: json
  sonarr_host :: json
  plex_enabled :: bool
  plex_url :: json
  plex_token :: json

text \<open>\<^verbatim>\<open>data[a][b]\<close> and \<^verbatim>\<open>data[a].get(b, d)\<close>.\<close>

definition sub2 :: "json \<Rightarrow> string \<Rightarrow> string \<Rightarrow> exn + json" where
  "sub2 data a b = (case subscript data a of Inl e \<Rightarrow> Inl e | Inr v \<Rightarrow> subscript v b)"

definition sub_get :: "json \<Rightarrow> string \<Rightarrow> string \<Rightarrow> json \<Rightarrow> exn + json" where
  "sub_get data a b d = (case subscript data a of Inl e \<Rightarrow> Inl e | Inr v \<Rightarrow> get_method v b d)"

text \<open>The call \<^verbatim>\<open>Config(...)\<close>: its arguments are evaluated in the order written.\<close>

definition base_config :: "json \<Rightarrow> exn + config" where
  "base_config data =
     (case sub2 data ''cleanup'' ''days_threshold'' of Inl e \<Rightarrow> Inl e | Inr dt \<Rightarrow>
     (case sub2 data ''cleanup'' ''media_root'' of Inl e \<Rightarrow> Inl e | Inr mr \<Rightarrow>
     (case sub_get data ''cleanup'' ''delete_empty_dirs'' (JBool True) of Inl e \<Rightarrow> Inl e | Inr de \<Rightarrow>
     (case sub_get data ''performance'' ''parallel_processing'' (JBool True) of Inl e \<Rightarrow> Inl e | Inr pp \<Rightarrow>
     (case sub_get data ''performance'' ''max_workers'' (JInt 4) of Inl e \<Rightarrow> Inl e | Inr mw \<Rightarrow>
     (case sub_get data ''cleanup'' ''dry_run'' (JBool False) of Inl e \<Rightarrow> Inl e | Inr dr \<Rightarrow>
        Inr \<lparr>days_threshold = dt, media_root = mr, delete_empty_dirs = de,
             parallel_processing = pp, max_workers = mw, dry_run = dr,
             sonarr_enabled = False, sonarr_api_key = JNull, sonarr_host = JNull,
             plex_enabled = False, plex_url = JNull, plex_token = JNull\<rparr>))))))"

text \<open>\<^verbatim>\<open>k in data\<close>, where \<open>data\<close> has already been subscripted with a string key, so
  that it is a dict.\<close>

fun has_key :: "json \<Rightarrow> string \<Rightarrow> bool" where
  "has_key (JObj kvs) k = (map_of kvs k \<noteq> None)"
| "has_key _ k = False"

definition add_sonarr :: "json \<Rightarrow> config \<Rightarrow> exn + config" where
  "add_sonarr data c =
     (if has_key data ''sonarr''
      then (case sub2 data ''sonarr'' ''api_key'' of Inl e \<Rightarrow> Inl e | Inr k \<Rightarrow>
           (case sub2 data ''sonarr'' ''host'' of Inl e \<Rightarrow> Inl e | Inr h \<Rightarrow>
              Inr (c\<lparr>sonarr_enabled := True, sonarr_api_key := k, sonarr_host := h\<rparr>)))
      else Inr c)"

definition add_plex :: "json \<Rightarrow> config \<Rightarrow> exn + config" where
  "add_plex data c =
     (if has_key data ''plex''
      then (case sub2 data ''plex'' ''url'' of Inl e \<Rightarrow> Inl e | Inr u \<Rightarrow>
           (case sub2 data ''plex'' ''token'' of Inl e \<Rightarrow> Inl e | Inr t \<Rightarrow>
              Inr (c\<lparr>plex_enabled := True, plex_url := u, plex_token := t\<rparr>)))
      else Inr c)"

text \<open>The body of the \<^verbatim>\<open>try\<close> of \<^verbatim>\<open>_load_config\<close>, from the outcome of opening and
  parsing the file.\<close>

definition load_config_try :: "exn + json \<Rightarrow> exn + config" where
  "load_config_try loaded =
     (case loaded of Inl e \<Rightarrow> Inl e | Inr data \<Rightarrow>
     (case base_config data of Inl e \<Rightarrow> Inl e | Inr c0 \<Rightarrow>
     (case add_sonarr data c0 of Inl e \<Rightarrow> Inl e | Inr c1 \<Rightarrow>
     (case add_plex data c1 of Inl e \<Rightarrow> Inl e | Inr c2 \<Rightarrow>
        if \<not> (sonarr_enabled c2 \<or> plex_enabled c2)
        then Inl (ValueError ''Neither Sonarr nor Plex is configured'')
        else Inr c2))))"

text \<open>\<^verbatim>\<open>_load_config\<close>: every exception ends the process through \<^verbatim>\<open>sys.exit\<close> with a
  message (\<open>Inl\<close>); otherwise the configuration is returned.\<close>

definition load_config :: "exn + json \<Rightarrow> fstring + config" where
  "load_config loaded =
     (case load_config_try loaded of
        Inl e \<Rightarrow> Inl [Lit ''Failed to load configuration: '', FmtExn e]
      | Inr c \<Rightarrow> Inr c)"

subsection \<open>Pruning empty directories\<close>

text \<open>\<^verbatim>\<open>os.path.join(root, name)\<close> for the name of a directory entry.\<close>

definition path_join :: "string \<Rightarrow> string \<Rightarrow> string" where
  "path_join root name =
     (if name \<noteq> [] \<and> hd name = CHR ''/'' then name
      else if root = [] \<or> last root = CHR ''/'' then root @ name
      else root @ ''/'' @ name)"

fun is_dir :: "node \<Rightarrow> bool" where
  "is_dir File = False"
| "is_dir (Dir le re ents) = True"

definition dir_names :: "(string \<times> node) list \<Rightarrow> string list" where
  "dir_names ents = map fst (filter (\<lambda>nc. is_dir (snd nc)) ents)"

text \<open>
  The body of the loop for one tuple \<^verbatim>\<open>(root, dirs, files)\<close> of the walk: each name of
  \<open>dirs\<close> is listed, and removed when the listing is empty. \<open>dirs\<close> was read when the
  walk entered \<open>root\<close>; \<open>ents\<close> is the directory as it is now. Listing or removing
  raises what the directory's \<open>list_err\<close> or \<open>rmdir_err\<close> says; a name that is no
  longer a directory raises too.
\<close>

fun prune_dirs ::
    "string \<Rightarrow> string list \<Rightarrow> (string \<times> node) list \<Rightarrow>
     exn option \<times> (string \<times> node) list \<times> log_entry list" where
  "prune_dirs root [] ents = (None, ents, [])"
| "prune_dirs root (d # ds) ents =
     (case map_of ents d of
        Some (Dir le re sub) \<Rightarrow>
          (case le of
             Some e \<Rightarrow> (Some e, ents, [])
           | None \<Rightarrow>
               if sub = []
               then (case re of
                       Some e \<Rightarrow> (Some e, ents, [])
                     | None \<Rightarrow>
                        (case prune_dirs root ds (AList.delete d ents) of
                           (x, ents1, lg) \<Rightarrow>
                             (x, ents1,
                              Info [Lit ''Removed empty directory: '', Lit (path_join root d)] # lg)))
               else prune_dirs root ds ents)
      | Some File \<Rightarrow> (Some (OSError ''Not a directory''), ents, [])
      | None \<Rightarrow> (Some (OSError ''No such file or directory''), ents, []))"

text \<open>
  \<^verbatim>\<open>os.walk(root, topdown=False)\<close> with the loop body run at each tuple it yields: the
  directory is scanned (an error of the scan is ignored by \<^verbatim>\<open>os.walk\<close>, which then
  yields nothing for it), its subdirectories are walked in turn, and then its own tuple is
  yielded. An exception of the loop body leaves the loop and the walk at once. The
  result is the exception, if any, the tree as it is left, and the lines logged.
\<close>

fun walk_prune :: "string \<Rightarrow> node \<Rightarrow> exn option \<times> node \<times> log_entry list"
  and walk_children ::
    "string \<Rightarrow> (string \<times> node) list \<Rightarrow> exn option \<times> (string \<times> node) list \<times> log_entry list"
where
  "walk_prune root File = (None, File, [])"
| "walk_prune root (Dir le re ents) =
     (case le of
        Some e \<Rightarrow> (None, Dir le re ents, [])
      | None \<Rightarrow>
          (case walk_children root ents of
             (Some e, ents1, lg1) \<Rightarrow> (Some e, Dir le re ents1, lg1)
           | (None, ents1, lg1) \<Rightarrow>
               (case prune_dirs root (dir_names ents) ents1 of
                  (x, ents2, lg2) \<Rightarrow> (x, Dir le re ents2, lg1 @ lg2))))"
| "walk_children root [] = (None, [], [])"
| "walk_children root ((n, c) # rest) =
     (case walk_prune (path_join root n) c of
        (Some e, c1, lg1) \<Rightarrow> (Some e, (n, c1) # rest, lg1)
      | (None, c1, lg1) \<Rightarrow>
          (case walk_children root rest of
             (x, rest1, lg2) \<Rightarrow> (x, (n, c1) # rest1, lg1 @ lg2)))"

text \<open>
  \<^verbatim>\<open>cleanup_empty_directories\<close>. The tree \<open>fs w\<close> is what stands at the configured
  media root (\<open>File\<close> for anything that is not a directory, a missing path included).
  A media root that is not a string makes \<^verbatim>\<open>os.walk\<close> raise \<^verbatim>\<open>TypeError\<close>, inside the
  \<^verbatim>\<open>try\<close>. The first component is the exception that leaves the method: the handler
  \<^verbatim>\<open>except Exception\<close> catches every one.
\<close>

definition cleanup_walk :: "config \<Rightarrow> world \<Rightarrow> exn option \<times> world" where
  "cleanup_walk cfg w =
     (case media_root cfg of
        JStr root \<Rightarrow>
          (case walk_prune root (fs w) of
             (x, n, lg) \<Rightarrow> (x, w\<lparr>logged := logged w @ lg, fs := n\<rparr>))
      | _ \<Rightarrow> (Some (TypeError ''expected str, bytes or os.PathLike object''), w))"

definition cleanup_empty_directories :: "config \<Rightarrow> world \<Rightarrow> world" where
  "cleanup_empty_directories cfg w =
     (if \<not> truthy (delete_empty_dirs cfg) \<or> truthy (dry_run cfg) then w
      else (case cleanup_walk cfg w of
              (None, w1) \<Rightarrow> w1
            | (Some e, w1) \<Rightarrow>
                log_error [Lit ''Failed to cleanup empty directories: '', FmtExn e] w1))"

subsection \<open>Processing the episodes of one series\<close>

text \<open>
  \<^verbatim>\<open>ThreadPoolExecutor(max_workers=v)\<close>: \<^verbatim>\<open>None\<close> takes the default size, a value that
  is not above zero raises \<^verbatim>\<open>ValueError\<close>, and a value that cannot be compared with
  zero raises \<^verbatim>\<open>TypeError\<close>.
\<close>

fun executor_check :: "json \<Rightarrow> exn option" where
  "executor_check JNull = None"
| "executor_check (JInt n) =
     (if n \<le> 0 then Some (ValueError ''max_workers must be greater than 0'') else None)"
| "executor_check (JBool b) =
     (if b then None else Some (ValueError ''max_workers must be greater than 0''))"
| "executor_check _ = Some (TypeError ''<= not supported between instances'')"

text \<open>
  \<^verbatim>\<open>list(executor.map(f, episodes))\<close>: one result per episode, in the order of the
  episodes. The pool may run the calls in any interleaving; the effects are threaded here
  in the order of the episodes, which is one of its schedules.
\<close>

fun executor_map :: "('e \<Rightarrow> 'w \<Rightarrow> bool \<times> 'w) \<Rightarrow> 'e list \<Rightarrow> 'w \<Rightarrow> bool list \<times> 'w" where
  "executor_map f [] w = ([], w)"
| "executor_map f (e # es) w =
     (case f e w of
        (r, w1) \<Rightarrow> (case executor_map f es w1 of (rs, w2) \<Rightarrow> (r # rs, w2)))"

text \<open>\<^verbatim>\<open>sum(1 for r in results if r)\<close>.\<close>

definition sum_true :: "bool list \<Rightarrow> int" where
  "sum_true results = sum_list (map (\<lambda>r. 1) (filter (\<lambda>r. r) results))"

text \<open>The parallel branch: the results are collected, then counted.\<close>

definition parallel_batch ::
    "('e \<Rightarrow> 'w \<Rightarrow> bool \<times> 'w) \<Rightarrow> 'e list \<Rightarrow> int \<Rightarrow> 'w \<Rightarrow> int \<times> 'w" where
  "parallel_batch f episodes total_processed w =
     (case executor_map f episodes w of
        (results, w1) \<Rightarrow> (total_processed + sum_true results, w1))"

text \<open>The sequential branch: the counter is incremented after each call that returns
  true.\<close>

fun sequential_batch ::
    "('e \<Rightarrow> 'w \<Rightarrow> bool \<times> 'w) \<Rightarrow> 'e list \<Rightarrow> int \<Rightarrow> 'w \<Rightarrow> int \<times> 'w" where
  "sequential_batch f [] total_processed w = (total_processed, w)"
| "sequential_batch f (e # es) total_processed w =
     (case f e w of
        (r, w1) \<Rightarrow>
          sequential_batch f es (if r then total_processed + 1 else total_processed) w1)"

definition processing_line :: "dict list \<Rightarrow> json \<Rightarrow> fstring" where
  "processing_line episodes t =
     [Lit ''Processing '', FmtInt (int (length episodes)), Lit '' episodes for '',
      Lit [CHR 0x27], Fmt t, Lit [CHR 0x27]]"

text \<open>The body of the loop over the series, for one series: the result is the new
  counter, or the exception that leaves the loop.\<close>

definition process_series ::
    "sonarr_manager \<Rightarrow> backend \<Rightarrow> config \<Rightarrow> datetime \<Rightarrow> dict \<Rightarrow> int \<Rightarrow> world \<Rightarrow>
     (exn + int) \<times> world" where
  "process_series m b cfg threshold_date serie total_processed w =
     (case map_of serie ''id'' of
        None \<Rightarrow> (Inl (KeyError ''id''), w)
      | Some sid \<Rightarrow>
         (case get_episodes_to_delete m b sid threshold_date w of
            (Inl e, w1) \<Rightarrow> (Inl e, w1)
          | (Inr episodes, w1) \<Rightarrow>
              if episodes = [] then (Inr total_processed, w1)
              else
               (case map_of serie ''title'' of
                  None \<Rightarrow> (Inl (KeyError ''title''), w1)
                | Some t \<Rightarrow>
                   (let w2 = log_info (processing_line episodes t) w1;
                        f = (\<lambda>ep. process_episode m b ep (truthy (dry_run cfg)))
                    in if truthy (parallel_processing cfg)
                       then (case executor_check (max_workers cfg) of
                               Some e \<Rightarrow> (Inl e, w2)
                             | None \<Rightarrow>
                                 (case parallel_batch f episodes total_processed w2 of
                                    (n, w3) \<Rightarrow> (Inr n, w3)))
                       else (case sequential_batch f episodes total_processed w2 of
                               (n, w3) \<Rightarrow> (Inr n, w3))))))"

fun series_loop ::
    "sonarr_manager \<Rightarrow> backend \<Rightarrow> config \<Rightarrow> datetime \<Rightarrow> dict list \<Rightarrow> int \<Rightarrow> world \<Rightarrow>
     (exn + int) \<times> world" where
  "series_loop m b cfg threshold_date [] total_processed w = (Inr total_processed, w)"
| "series_loop m b cfg threshold_date (serie # rest) total_processed w =
     (case process_series m b cfg threshold_date serie total_processed w of
        (Inl e, w1) \<Rightarrow> (Inl e, w1)
      | (Inr n, w1) \<Rightarrow> series_loop m b cfg threshold_date rest n w1)"

subsection \<open>\<^verbatim>\<open>run\<close>\<close>

text \<open>
  What the run meets outside the process: the library manager, and the media server as
  \<^verbatim>\<open>self.plex\<close> holds it (\<open>None\<close> when no manager was built, as happens when the
  client library is not installed).
\<close>

record environment =
  sonarr_backend :: backend
  plex :: "(exn + plex_section list) option"

definition sonarr_of :: "config \<Rightarrow> sonarr_manager" where
  "sonarr_of cfg = \<lparr>api_key = sonarr_api_key cfg, host = sonarr_host cfg\<rparr>"

definition sonarr_phase ::
    "config \<Rightarrow> environment \<Rightarrow> datetime \<Rightarrow> world \<Rightarrow> (exn + int) \<times> world" where
  "sonarr_phase cfg env threshold_date w =
     (if sonarr_enabled cfg
      then (case get_daily_series (sonarr_of cfg) (sonarr_backend env)
                   (log_info [Lit ''Processing Sonarr content...''] w) of
              (Inl e, w1) \<Rightarrow> (Inl e, w1)
            | (Inr series, w1) \<Rightarrow>
                series_loop (sonarr_of cfg) (sonarr_backend env) cfg threshold_date series 0 w1)
      else (Inr 0, w))"

definition plex_phase :: "config \<Rightarrow> environment \<Rightarrow> world \<Rightarrow> exn option \<times> world" where
  "plex_phase cfg env w =
     (if plex_enabled cfg
      then (let w1 = log_info [Lit ''Refreshing Plex libraries...''] w
            in case plex env of
                 None \<Rightarrow> (Some (AttributeError ''refresh_libraries''), w1)
               | Some server \<Rightarrow> (None, refresh_libraries server (truthy (dry_run cfg)) w1))
      else (None, w))"

definition summary_line :: "config \<Rightarrow> int \<Rightarrow> fstring" where
  "summary_line cfg total_processed =
     [Lit ''Cleanup complete. Processed '', FmtInt total_processed, Lit '' episodes '',
      Lit ''('', Lit (if truthy (dry_run cfg) then ''Dry run'' else ''Actual run''), Lit '')'']"

text \<open>
  \<^verbatim>\<open>run\<close>, from the threshold date that its second statement computes from the clock
  and the configured number of days. The result is the number of episodes processed, or
  the exception that ends the run.
\<close>

definition run :: "config \<Rightarrow> environment \<Rightarrow> datetime \<Rightarrow> world \<Rightarrow> (exn + int) \<times> world" where
  "run cfg env threshold_date w =
     (case sonarr_phase cfg env threshold_date
             (log_info [Lit ''Starting media cleanup process...''] w) of
        (Inl e, w1) \<Rightarrow> (Inl e, w1)
      | (Inr total_processed, w1) \<Rightarrow>
         (case plex_phase cfg env w1 of
            (Some e, w2) \<Rightarrow> (Inl e, w2)
          | (None, w2) \<Rightarrow>
              (let w3 = (if truthy (delete_empty_dirs cfg)
                         then cleanup_empty_directories cfg w2 else w2)
               in (Inr total_processed, log_info (summary_line cfg total_processed) w3))))"

section \<open>Concrete inputs\<close>

text \<open>
  The scenario of the specification: one daily series \<^verbatim>\<open>Show\<close> and one other series;
  the episodes E1 (aired before the threshold, file present), E2 (aired after it, file
  present) and E3 (aired before it, no file); and an episode that has not aired yet, for
  which the library manager sends no air date.
\<close>

definition ok_response :: "json \<Rightarrow> response" where
  "ok_response body = \<lparr>status_code = 200, json_body = Inr body\<rparr>"

definition ex_manager :: sonarr_manager where
  "ex_manager = \<lparr>api_key = JStr ''key'', host = JStr ''http://sonarr:8989''\<rparr>"

definition ex_world :: world where
  "ex_world = \<lparr>calls = [], logged = [], updated = [],
               fs = Dir None None [(''Show'', Dir None None [])]\<rparr>"

definition ex_daily :: dict where
  "ex_daily = [(''id'', JInt 1), (''title'', JStr ''Show''), (''seriesType'', JStr ''daily'')]"

definition ex_standard :: dict where
  "ex_standard = [(''id'', JInt 2), (''title'', JStr ''Other''), (''seriesType'', JStr ''standard'')]"

definition ex_E1 :: dict where
  "ex_E1 = [(''id'', JInt 11), (''airDateUtc'', JStr ''2024-01-05T03:04:05Z''),
            (''hasFile'', JBool True), (''episodeFileId'', JInt 101), (''title'', JStr ''E1'')]"

definition ex_E2 :: dict where
  "ex_E2 = [(''id'', JInt 12), (''airDateUtc'', JStr ''2024-02-04T03:04:05Z''),
            (''hasFile'', JBool True), (''episodeFileId'', JInt 102), (''title'', JStr ''E2'')]"

definition ex_E3 :: dict where
  "ex_E3 = [(''id'', JInt 13), (''airDateUtc'', JStr ''2023-12-26T03:04:05Z''),
            (''hasFile'', JBool False), (''title'', JStr ''E3'')]"

definition ex_threshold :: datetime where
  "ex_threshold = (2024, 1, 15, 12, 0, 0, 0)"

definition ex_backend :: backend where
  "ex_backend h r =
     (case r of
        HttpGet url params hdrs \<Rightarrow>
          if params = [] then Inr (ok_response (JArr [JObj ex_daily, JObj ex_standard]))
          else Inr (ok_response (JArr [JObj ex_E1, JObj ex_E2, JObj ex_E3]))
      | _ \<Rightarrow> Inr (ok_response JNull))"

definition ex_config :: config where
  "ex_config =
     \<lparr>days_threshold = JInt 30, media_root = JStr ''/media'', delete_empty_dirs = JBool True,
      parallel_processing = JBool True, max_workers = JInt 4, dry_run = JBool False,
      sonarr_enabled = True, sonarr_api_key = JStr ''key'',
      sonarr_host = JStr ''http://sonarr:8989'', plex_enabled = False, plex_url = JNull,
      plex_token = JNull\<rparr>"

definition ex_unaired :: dict where
  "ex_unaired = [(''id'', JInt 14), (''hasFile'', JBool False), (''title'', JStr ''TBA'')]"

definition ex_backend_unaired :: backend where
  "ex_backend_unaired h r =
     (case r of
        HttpGet url params hdrs \<Rightarrow>
          if params = [] then Inr (ok_response (JArr [JObj ex_daily]))
          else Inr (ok_response (JArr [JObj ex_E1, JObj ex_unaired]))
      | _ \<Rightarrow> Inr (ok_response JNull))"

text \<open>Two configuration documents: one without a \<^verbatim>\<open>performance\<close> section, one with
  an empty one.\<close>

definition ex_cleanup_block :: json where
  "ex_cleanup_block = JObj [(''days_threshold'', JInt 30), (''media_root'', JStr ''/media'')]"

definition ex_sonarr_block :: json where
  "ex_sonarr_block = JObj [(''api_key'', JStr ''key''), (''host'', JStr ''http://sonarr:8989'')]"

definition ex_doc_no_performance :: dict where
  "ex_doc_no_performance = [(''cleanup'', ex_cleanup_block), (''sonarr'', ex_sonarr_block)]"

definition ex_doc_empty_performance :: dict where
  "ex_doc_empty_performance =
     [(''cleanup'', ex_cleanup_block), (''performance'', JObj []), (''sonarr'', ex_sonarr_block)]"

text \<open>
  A backend block of the configuration document is well formed when it is absent, or a
  mapping that has both of its keys.
\<close>

definition block_ok :: "dict \<Rightarrow> string \<Rightarrow> string \<Rightarrow> string \<Rightarrow> bool" where
  "block_ok kvs name k1 k2 =
     (case map_of kvs name of
        None \<Rightarrow> True
      | Some (JObj blk) \<Rightarrow> map_of blk k1 \<noteq> None \<and> map_of blk k2 \<noteq> None
      | Some other \<Rightarrow> False)"

text \<open>The same run as a dry run, against the library manager of the scenario and a
  media server with one library of shows.\<close>

definition ex_config_dry :: config where
  "ex_config_dry =
     ex_config\<lparr>dry_run := JBool True, plex_enabled := True,
       plex_url := JStr ''http://plex:32400'', plex_token := JStr ''token''\<rparr>"

definition ex_environment :: environment where
  "ex_environment =
     \<lparr>sonarr_backend = ex_backend,
      plex = Some (Inr [\<lparr>stype = ''show'', stitle = ''TV'', update_err = None\<rparr>])\<rparr>"

text \<open>
  What a step may do to the world without mutating anything outside the process: issue
  further requests that are all reads, and log. The sections updated and the directory
  tree stay as they are.
\<close>

definition unmutated :: "world \<Rightarrow> world \<Rightarrow> bool" where
  "unmutated w w1 =
     ((\<exists>new. calls w1 = calls w @ new \<and> list_all (\<lambda>r. \<not> is_mutating r) new) \<and>
      updated w1 = updated w \<and> fs w1 = fs w)"



section \<open>Properties of the episode processor\<close>

text \<open>
  Claim C6. For every episode, \<^verbatim>\<open>process_episode\<close> with \<^verbatim>\<open>dry_run=true\<close> returns true,
  issues no request (the list of calls is unchanged) and logs exactly one line, which
  carries the title of the episode (\<^verbatim>\<open>Unknown\<close> when it has none) and the words
  \<^verbatim>\<open>Dry run\<close>; nothing else of the world changes.
\<close>

theorem process_episode_dry_run:
  "process_episode m b episode True w =
     (True, w\<lparr>logged := logged w @
        [Info [Lit ''Processed Sonarr episode: '',
               Fmt (dict_get episode ''title'' (JStr ''Unknown'')),
               Lit '' '', Lit ''('', Lit ''Dry run'', Lit '')'']]\<rparr>)
   \<and> calls (snd (process_episode m b episode True w)) = calls w"
  by (simp add: process_episode_def processed_line_def log_info_def)

text \<open>
  Claim C2 says that a response outside 2xx to the update or to the delete makes
  \<^verbatim>\<open>process_episode\<close> return false. The method drops both responses and never calls
  \<^verbatim>\<open>raise_for_status\<close>, as the two fetches do: when the library manager answers 500 to
  both requests, the episode is reported as processed and logged as deleted.
\<close>

theorem process_episode_ignores_status:
  "process_episode m (\<lambda>h r. Inr \<lparr>status_code = 500, json_body = Inr JNull\<rparr>)
     [(''id'', JInt 1), (''episodeFileId'', JInt 10), (''title'', JStr ''E1'')] False w =
   (True,
    w\<lparr>calls := calls w @
         [HttpPut [Fmt (host m), Lit ''/api/v3/episode/'', Fmt (JInt 1)] (get_headers m)
            (JObj [(''id'', JInt 1), (''episodeFileId'', JInt 10), (''title'', JStr ''E1''),
                   (''monitored'', JBool False)]),
          HttpDelete [Fmt (host m), Lit ''/api/v3/episodefile/'', Fmt (JInt 10)] (get_headers m)],
      logged := logged w @
         [Info [Lit ''Processed Sonarr episode: '', Fmt (JStr ''E1''),
                Lit '' '', Lit ''('', Lit ''Deleted'', Lit '')'']]\<rparr>)"
  by (simp add: process_episode_def unmonitor_and_delete_def issue_def processed_line_def
      log_info_def dict_get_def)

section \<open>The two ways of counting a batch\<close>

lemma sequential_is_parallel:
  "sequential_batch f es n w = parallel_batch f es n w"
proof (induction es arbitrary: n w)
  case Nil
  show ?case by (simp add: parallel_batch_def sum_true_def)
next
  case (Cons e es)
  obtain r w1 where f: "f e w = (r, w1)" by (cases "f e w")
  obtain rs w2 where m: "executor_map f es w1 = (rs, w2)" by (cases "executor_map f es w1")
  have "sequential_batch f (e # es) n w = parallel_batch f es (if r then n + 1 else n) w1"
    using f Cons.IH by simp
  also have "\<dots> = parallel_batch f (e # es) n w"
    using f m by (simp add: parallel_batch_def sum_true_def)
  finally show ?case .
qed

section \<open>Properties of the two fetches\<close>

lemmas strptime_eval = strptime_str_def parse_fields_def no_match_def field_Y_def is_digit_def
  int_of_digits_def digit_val_def days_in_month_def is_leap_def

lemma ex_air_dates:
  "strptime_str ''2024-01-05T03:04:05Z'' = Inr (2024, 1, 5, 3, 4, 5, 0)"
  "strptime_str ''2024-02-04T03:04:05Z'' = Inr (2024, 2, 4, 3, 4, 5, 0)"
  "strptime_str ''2023-12-26T03:04:05Z'' = Inr (2023, 12, 26, 3, 4, 5, 0)"
  by (simp_all add: strptime_eval)

lemma fetch_json_ok:
  "raise_for_status resp = Inr () \<Longrightarrow> fetch_json (Inr resp) = json_body resp"
  by (simp add: fetch_json_def)

lemma daily_filter_wf:
  "\<forall>s\<in>set series. map_of s ''seriesType'' \<noteq> None \<Longrightarrow>
   daily_filter (map JObj series) =
     Inr (filter (\<lambda>s. map_of s ''seriesType'' = Some (JStr ''daily'')) series)"
  by (induction series) auto

text \<open>
  Claim C8. For every series list that the fetch delivers (a list of series records, each
  with its format tag \<^verbatim>\<open>seriesType\<close>), \<^verbatim>\<open>get_daily_series\<close> returns the records
  whose tag equals \<^verbatim>\<open>daily\<close>, in their order: a subsequence of the input, every
  element of which has the tag \<^verbatim>\<open>daily\<close>. An empty list gives an empty result, and
  so does a fetch that fails with an error of the HTTP client.
\<close>

theorem get_daily_series_filters:
  "(b (calls w) (series_request m) = Inr resp \<and> raise_for_status resp = Inr () \<and>
    json_body resp = Inr (JArr (map JObj series)) \<and>
    (\<forall>s\<in>set series. map_of s ''seriesType'' \<noteq> None) \<longrightarrow>
      (\<exists>res. fst (get_daily_series m b w) = Inr res \<and> subseq res series \<and>
         (\<forall>s\<in>set res. map_of s ''seriesType'' = Some (JStr ''daily'')) \<and>
         res = filter (\<lambda>s. map_of s ''seriesType'' = Some (JStr ''daily'')) series \<and>
         (series = [] \<longrightarrow> res = [])))
   \<and> (b (calls w) (series_request m) = Inl e \<and> is_RequestException e \<longrightarrow>
        fst (get_daily_series m b w) = Inr [])"
proof (intro conjI impI)
  assume a: "b (calls w) (series_request m) = Inr resp \<and> raise_for_status resp = Inr () \<and>
    json_body resp = Inr (JArr (map JObj series)) \<and>
    (\<forall>s\<in>set series. map_of s ''seriesType'' \<noteq> None)"
  let ?res = "filter (\<lambda>s. map_of s ''seriesType'' = Some (JStr ''daily'')) series"
  have "daily_series_of (Inr resp) = Inr ?res"
    using a by (simp add: daily_series_of_def fetch_json_ok daily_filter_wf)
  then have "fst (get_daily_series m b w) = Inr ?res"
    using a by (simp add: get_daily_series_def issue_def)
  then show "\<exists>res. fst (get_daily_series m b w) = Inr res \<and> subseq res series \<and>
         (\<forall>s\<in>set res. map_of s ''seriesType'' = Some (JStr ''daily'')) \<and>
         res = ?res \<and> (series = [] \<longrightarrow> res = [])"
    by simp
next
  assume "b (calls w) (series_request m) = Inl e \<and> is_RequestException e"
  then show "fst (get_daily_series m b w) = Inr []"
    by (simp add: get_daily_series_def issue_def daily_series_of_def fetch_json_def)
qed

theorem get_daily_series_filters_witness:
  "fst (get_daily_series ex_manager ex_backend ex_world) = Inr [ex_daily]
   \<and> fst (get_daily_series ex_manager (\<lambda>h r. Inl (RequestException ''Connection refused''))
        ex_world) = Inr []"
proof
  have "ex_backend (calls ex_world) (series_request ex_manager) =
          Inr (ok_response (JArr (map JObj [ex_daily, ex_standard])))"
    by (simp add: ex_backend_def series_request_def)
  moreover have "raise_for_status (ok_response (JArr (map JObj [ex_daily, ex_standard]))) = Inr ()"
    by (simp add: raise_for_status_def ok_response_def)
  moreover have "json_body (ok_response (JArr (map JObj [ex_daily, ex_standard]))) =
      Inr (JArr (map JObj [ex_daily, ex_standard]))"
    by (simp add: ok_response_def)
  moreover have "\<forall>s\<in>set [ex_daily, ex_standard]. map_of s ''seriesType'' \<noteq> None"
    by (simp add: ex_daily_def ex_standard_def)
  ultimately show "fst (get_daily_series ex_manager ex_backend ex_world) = Inr [ex_daily]"
    using get_daily_series_filters [of ex_backend ex_world ex_manager
        "ok_response (JArr (map JObj [ex_daily, ex_standard]))" "[ex_daily, ex_standard]"]
    by (simp add: ex_daily_def ex_standard_def)
next
  show "fst (get_daily_series ex_manager (\<lambda>h r. Inl (RequestException ''Connection refused''))
        ex_world) = Inr []"
    using get_daily_series_filters [of "\<lambda>h r. Inl (RequestException ''Connection refused'')"
        ex_world ex_manager _ _ "RequestException ''Connection refused''"]
    by simp
qed

lemma eligible_iff:
  "eligible threshold_date ep = Inr True \<longleftrightarrow>
     truthy (dict_get ep ''hasFile'' (JBool False)) \<and>
     (\<exists>a t. map_of ep ''airDateUtc'' = Some a \<and> strptime a = Inr t \<and> t < threshold_date)"
  by (auto simp: eligible_def split: option.splits sum.splits)

lemma episode_filter_wf:
  "\<forall>ep\<in>set episodes. \<exists>a t. map_of ep ''airDateUtc'' = Some a \<and> strptime a = Inr t \<Longrightarrow>
   episode_filter threshold_date (map JObj episodes) =
     Inr (filter (\<lambda>ep. eligible threshold_date ep = Inr True) episodes)"
proof (induction episodes)
  case Nil
  show ?case by simp
next
  case (Cons ep eps)
  then obtain a t where "map_of ep ''airDateUtc'' = Some a" "strptime a = Inr t" by auto
  then have "eligible threshold_date ep =
      Inr (t < threshold_date \<and> truthy (dict_get ep ''hasFile'' (JBool False)))"
    by (simp add: eligible_def)
  with Cons show ?case by auto
qed

lemma unaired_raises:
  "fst (get_episodes_to_delete m ex_backend_unaired series_id threshold_date w) =
     Inl (KeyError ''airDateUtc'')"
  by (simp add: get_episodes_to_delete_def issue_def episodes_of_def fetch_json_def
      raise_for_status_def ok_response_def eligible_def ex_backend_unaired_def episode_request_def
      ex_E1_def ex_unaired_def ex_air_dates split: sum.split)

text \<open>
  Claim C4 says that, for every fetched episode list, an episode is in the result if and
  only if its file is present and it aired before the threshold. When the library manager
  delivers E1 (file present, aired before the threshold) together with an episode that
  has no air date yet, the comprehension raises \<^verbatim>\<open>KeyError\<close> at the second record and
  there is no result: E1 meets the condition and is in no result.
\<close>

theorem eligible_episode_without_result:
  "fst (get_episodes_to_delete ex_manager ex_backend_unaired (JInt 1) ex_threshold ex_world) =
     Inl (KeyError ''airDateUtc'')
   \<and> truthy (dict_get ex_E1 ''hasFile'' (JBool False))
   \<and> (\<exists>a t. map_of ex_E1 ''airDateUtc'' = Some a \<and> strptime a = Inr t \<and> t < ex_threshold)
   \<and> \<not> (\<exists>res. fst (get_episodes_to_delete ex_manager ex_backend_unaired (JInt 1) ex_threshold
                    ex_world) = Inr res \<and> ex_E1 \<in> set res)"
proof -
  have r: "fst (get_episodes_to_delete ex_manager ex_backend_unaired (JInt 1) ex_threshold
      ex_world) = Inl (KeyError ''airDateUtc'')"
    by (rule unaired_raises)
  have "truthy (dict_get ex_E1 ''hasFile'' (JBool False))"
    by (simp add: ex_E1_def dict_get_def)
  moreover have "\<exists>a t. map_of ex_E1 ''airDateUtc'' = Some a \<and> strptime a = Inr t \<and>
      t < ex_threshold"
    by (simp add: ex_E1_def ex_air_dates ex_threshold_def)
  ultimately show ?thesis using r by simp
qed

text \<open>
  Claim C4, amended. For every series and every delivered episode list in which every
  record has an air date that parses, an episode is in the result of
  \<^verbatim>\<open>get_episodes_to_delete\<close> if and only if it is in the list, its \<^verbatim>\<open>hasFile\<close> flag is
  true and its air timestamp is strictly before the threshold; an episode whose flag is
  false (or absent) is never in the result. The result keeps the order of the list.
\<close>

theorem get_episodes_to_delete_eligibility:
  assumes "b (calls w) (episode_request m series_id) = Inr resp"
    and "raise_for_status resp = Inr ()"
    and "json_body resp = Inr (JArr (map JObj episodes))"
    and "\<forall>ep\<in>set episodes. \<exists>a t. map_of ep ''airDateUtc'' = Some a \<and> strptime a = Inr t"
  shows "\<exists>res. fst (get_episodes_to_delete m b series_id threshold_date w) = Inr res \<and>
     (\<forall>ep. ep \<in> set res \<longleftrightarrow>
        ep \<in> set episodes \<and> truthy (dict_get ep ''hasFile'' (JBool False)) \<and>
        (\<exists>a t. map_of ep ''airDateUtc'' = Some a \<and> strptime a = Inr t \<and> t < threshold_date)) \<and>
     (\<forall>ep\<in>set episodes. \<not> truthy (dict_get ep ''hasFile'' (JBool False)) \<longrightarrow> ep \<notin> set res) \<and>
     subseq res episodes"
proof -
  let ?res = "filter (\<lambda>ep. eligible threshold_date ep = Inr True) episodes"
  have "episodes_of threshold_date (Inr resp) = Inr ?res"
    using assms by (simp add: episodes_of_def fetch_json_ok episode_filter_wf)
  then have r: "fst (get_episodes_to_delete m b series_id threshold_date w) = Inr ?res"
    using assms(1) by (simp add: get_episodes_to_delete_def issue_def)
  have "\<forall>ep. ep \<in> set ?res \<longleftrightarrow>
        ep \<in> set episodes \<and> truthy (dict_get ep ''hasFile'' (JBool False)) \<and>
        (\<exists>a t. map_of ep ''airDateUtc'' = Some a \<and> strptime a = Inr t \<and> t < threshold_date)"
    by (simp add: eligible_iff)
  moreover have "\<forall>ep\<in>set episodes. \<not> truthy (dict_get ep ''hasFile'' (JBool False)) \<longrightarrow>
      ep \<notin> set ?res"
    by (simp add: eligible_iff)
  moreover have "subseq ?res episodes" by simp
  ultimately show ?thesis using r by blast
qed

theorem get_episodes_to_delete_eligibility_witness:
  "\<exists>res. fst (get_episodes_to_delete ex_manager ex_backend (JInt 1) ex_threshold ex_world) = Inr res
     \<and> ex_E1 \<in> set res \<and> ex_E2 \<notin> set res \<and> ex_E3 \<notin> set res"
proof -
  let ?resp = "ok_response (JArr (map JObj [ex_E1, ex_E2, ex_E3]))"
  have 1: "ex_backend (calls ex_world) (episode_request ex_manager (JInt 1)) = Inr ?resp"
    by (simp add: ex_backend_def episode_request_def)
  have 2: "raise_for_status ?resp = Inr ()"
    by (simp add: raise_for_status_def ok_response_def)
  have 3: "json_body ?resp = Inr (JArr (map JObj [ex_E1, ex_E2, ex_E3]))"
    by (simp add: ok_response_def)
  have 4: "\<forall>ep\<in>set [ex_E1, ex_E2, ex_E3].
      \<exists>a t. map_of ep ''airDateUtc'' = Some a \<and> strptime a = Inr t"
    by (simp add: ex_E1_def ex_E2_def ex_E3_def ex_air_dates)
  obtain res where r:
    "fst (get_episodes_to_delete ex_manager ex_backend (JInt 1) ex_threshold ex_world) = Inr res"
    "\<forall>ep. ep \<in> set res \<longleftrightarrow>
        ep \<in> set [ex_E1, ex_E2, ex_E3] \<and> truthy (dict_get ep ''hasFile'' (JBool False)) \<and>
        (\<exists>a t. map_of ep ''airDateUtc'' = Some a \<and> strptime a = Inr t \<and> t < ex_threshold)"
    using get_episodes_to_delete_eligibility
      [where b = ex_backend and w = ex_world and m = ex_manager and series_id = "JInt 1"
         and resp = ?resp and episodes = "[ex_E1, ex_E2, ex_E3]"
         and threshold_date = ex_threshold, OF 1 2 3 4]
    by blast
  have "ex_E1 \<in> set res"
    using r(2) by (simp add: ex_E1_def dict_get_def ex_air_dates ex_threshold_def)
  moreover have "ex_E2 \<notin> set res"
    using r(2) by (simp add: ex_E2_def dict_get_def ex_air_dates ex_threshold_def)
  moreover have "ex_E3 \<notin> set res"
    using r(2) by (simp add: ex_E3_def dict_get_def)
  ultimately show ?thesis using r(1) by blast
qed

text \<open>
  Claim C7. When the request for the episodes of a series fails with a transport error
  of the HTTP client, \<^verbatim>\<open>get_episodes_to_delete\<close> returns the empty list and logs one
  error line, and the loop over the series goes on with the next series, the counter
  unchanged.
\<close>

theorem fetch_failure_gives_empty:
  assumes "b (calls w) (episode_request m series_id) = Inl e"
    and "is_RequestException e"
    and "map_of serie ''id'' = Some series_id"
  shows "get_episodes_to_delete m b series_id threshold_date w =
     (Inr [],
      w\<lparr>calls := calls w @ [episode_request m series_id],
        logged := logged w @
          [Error [Lit ''Failed to fetch episodes for series '', Fmt series_id,
                  Lit '': '', FmtExn e]]\<rparr>)
   \<and> series_loop m b cfg threshold_date (serie # rest) total_processed w =
     series_loop m b cfg threshold_date rest total_processed
       (w\<lparr>calls := calls w @ [episode_request m series_id],
          logged := logged w @
            [Error [Lit ''Failed to fetch episodes for series '', Fmt series_id,
                    Lit '': '', FmtExn e]]\<rparr>)"
proof -
  have g: "get_episodes_to_delete m b series_id threshold_date w =
     (Inr [],
      w\<lparr>calls := calls w @ [episode_request m series_id],
        logged := logged w @
          [Error [Lit ''Failed to fetch episodes for series '', Fmt series_id,
                  Lit '': '', FmtExn e]]\<rparr>)"
    using assms(1,2)
    by (simp add: get_episodes_to_delete_def issue_def episodes_of_def fetch_json_def log_error_def)
  then show ?thesis using assms(3) by (simp add: process_series_def)
qed

theorem fetch_failure_gives_empty_witness:
  "fst (get_episodes_to_delete ex_manager (\<lambda>h r. Inl (RequestException ''Connection refused''))
          (JInt 1) ex_threshold ex_world) = Inr []
   \<and> series_loop ex_manager (\<lambda>h r. Inl (RequestException ''Connection refused'')) ex_config
        ex_threshold [ex_daily] 5 ex_world =
      (Inr 5,
       ex_world\<lparr>calls := [episode_request ex_manager (JInt 1)],
         logged := [Error [Lit ''Failed to fetch episodes for series '', Fmt (JInt 1),
                  Lit '': '', FmtExn (RequestException ''Connection refused'')]]\<rparr>)"
  using fetch_failure_gives_empty
      [where b = "\<lambda>h r. Inl (RequestException ''Connection refused'')" and w = ex_world
         and m = ex_manager and series_id = "JInt 1" and serie = ex_daily
         and e = "RequestException ''Connection refused''" and threshold_date = ex_threshold
         and cfg = ex_config and rest = "[]" and total_processed = 5]
  by (simp add: ex_daily_def ex_world_def)

text \<open>
  Claim C9. The handler of \<^verbatim>\<open>get_episodes_to_delete\<close> catches only the errors of the
  HTTP client. A delivered episode list with a record that has no \<^verbatim>\<open>airDateUtc\<close>
  makes it raise \<^verbatim>\<open>KeyError\<close>, and one whose \<^verbatim>\<open>airDateUtc\<close> is \<^verbatim>\<open>2024-01-05\<close>
  makes it raise \<^verbatim>\<open>ValueError\<close>; the exception leaves the method, and the run on
  such a library ends with it.
\<close>

theorem malformed_air_date_aborts:
  "fst (get_episodes_to_delete m ex_backend_unaired series_id threshold_date w) =
     Inl (KeyError ''airDateUtc'')
   \<and> fst (get_episodes_to_delete m
          (\<lambda>h r. Inr (ok_response (JArr [JObj [(''id'', JInt 14),
              (''airDateUtc'', JStr ''2024-01-05''), (''hasFile'', JBool True)]])))
          series_id threshold_date w) = Inl (ValueError ''time data does not match format'')
   \<and> fst (run ex_config \<lparr>sonarr_backend = ex_backend_unaired, plex = None\<rparr> threshold_date w) =
     Inl (KeyError ''airDateUtc'')"
proof (intro conjI)
  show "fst (get_episodes_to_delete m ex_backend_unaired series_id threshold_date w) =
     Inl (KeyError ''airDateUtc'')"
    by (rule unaired_raises)
  show "fst (get_episodes_to_delete m
          (\<lambda>h r. Inr (ok_response (JArr [JObj [(''id'', JInt 14),
              (''airDateUtc'', JStr ''2024-01-05''), (''hasFile'', JBool True)]])))
          series_id threshold_date w) = Inl (ValueError ''time data does not match format'')"
    by (simp add: get_episodes_to_delete_def issue_def episodes_of_def fetch_json_def
      raise_for_status_def ok_response_def eligible_def strptime_str_def no_match_def)
  have s: "get_daily_series (sonarr_of ex_config) ex_backend_unaired w1 =
      (Inr [ex_daily], w1\<lparr>calls := calls w1 @ [series_request (sonarr_of ex_config)]\<rparr>)" for w1
    by (simp add: get_daily_series_def issue_def daily_series_of_def fetch_json_def
        raise_for_status_def ok_response_def ex_backend_unaired_def series_request_def ex_daily_def)
  have l: "fst (series_loop m ex_backend_unaired cfg threshold_date [ex_daily] n w1) =
      Inl (KeyError ''airDateUtc'')" for m cfg n w1
  proof -
    obtain w2 where "get_episodes_to_delete m ex_backend_unaired (JInt 1) threshold_date w1 =
        (Inl (KeyError ''airDateUtc''), w2)"
      using unaired_raises [of m "JInt 1" threshold_date w1]
      by (cases "get_episodes_to_delete m ex_backend_unaired (JInt 1) threshold_date w1") simp
    then show ?thesis by (simp add: process_series_def ex_daily_def)
  qed
  obtain r w2 where g: "series_loop (sonarr_of ex_config) ex_backend_unaired ex_config
      threshold_date [ex_daily] 0
      ((log_info [Lit ''Processing Sonarr content...'']
          (log_info [Lit ''Starting media cleanup process...''] w))
        \<lparr>calls := calls (log_info [Lit ''Processing Sonarr content...'']
          (log_info [Lit ''Starting media cleanup process...''] w)) @
            [series_request (sonarr_of ex_config)]\<rparr>) = (r, w2)"
    by (meson surj_pair)
  then have "r = Inl (KeyError ''airDateUtc'')"
    using l [of "sonarr_of ex_config" ex_config 0] by (metis fst_conv)
  then show "fst (run ex_config \<lparr>sonarr_backend = ex_backend_unaired, plex = None\<rparr>
      threshold_date w) = Inl (KeyError ''airDateUtc'')"
    using g by (simp add: run_def sonarr_phase_def s) (simp add: ex_config_def)
qed

section \<open>Properties of the configuration loader\<close>

lemmas config_eval = load_config_def load_config_try_def base_config_def add_sonarr_def
  add_plex_def sub2_def sub_get_def

text \<open>
  Claim C3 says that a document with the required \<^verbatim>\<open>cleanup\<close> keys and a backend block
  but no \<^verbatim>\<open>performance\<close> section loads with the defaults. It does not: the section
  is subscripted before the defaults are looked up, the \<^verbatim>\<open>KeyError\<close> is caught by the
  handler of \<^verbatim>\<open>_load_config\<close>, and the process exits.
\<close>

theorem missing_performance_section_is_fatal:
  "load_config (Inr (JObj ex_doc_no_performance)) =
     Inl [Lit ''Failed to load configuration: '', FmtExn (KeyError ''performance'')]
   \<and> \<not> (\<exists>c. load_config (Inr (JObj ex_doc_no_performance)) = Inr c \<and>
            parallel_processing c = JBool True \<and> max_workers c = JInt 4)"
  by (simp add: config_eval ex_doc_no_performance_def ex_cleanup_block_def ex_sonarr_block_def)

lemma add_sonarr_ok:
  "block_ok kvs ''sonarr'' ''api_key'' ''host'' \<Longrightarrow>
   \<exists>c1. add_sonarr (JObj kvs) c = Inr c1 \<and> parallel_processing c1 = parallel_processing c \<and>
     max_workers c1 = max_workers c \<and> plex_enabled c1 = plex_enabled c \<and>
     sonarr_enabled c1 = (sonarr_enabled c \<or> map_of kvs ''sonarr'' \<noteq> None)"
  by (auto simp: add_sonarr_def sub2_def block_ok_def split: option.splits json.splits)

lemma add_plex_ok:
  "block_ok kvs ''plex'' ''url'' ''token'' \<Longrightarrow>
   \<exists>c1. add_plex (JObj kvs) c = Inr c1 \<and> parallel_processing c1 = parallel_processing c \<and>
     max_workers c1 = max_workers c \<and> sonarr_enabled c1 = sonarr_enabled c \<and>
     plex_enabled c1 = (plex_enabled c \<or> map_of kvs ''plex'' \<noteq> None)"
  by (auto simp: add_plex_def sub2_def block_ok_def split: option.splits json.splits)

lemma sub_get_dict:
  "map_of kvs a = Some (JObj blk) \<Longrightarrow> sub_get (JObj kvs) a b d = Inr (dict_get blk b d)"
  by (simp add: sub_get_def dict_get_def split: option.split)

lemma sub2_dict:
  "map_of kvs a = Some (JObj blk) \<Longrightarrow> map_of blk b = Some v \<Longrightarrow>
   sub2 (JObj kvs) a b = Inr v"
  by (simp add: sub2_def)

text \<open>
  Claim C3, amended. For every document with the required \<^verbatim>\<open>cleanup\<close> keys and at
  least one backend block (each block present being well formed): when the
  \<^verbatim>\<open>performance\<close> section is a mapping without the two keys, an empty one included,
  loading succeeds with \<^verbatim>\<open>parallel_processing\<close> true and \<^verbatim>\<open>max_workers\<close> 4; when
  the section is absent, loading ends the process with the message of the
  \<^verbatim>\<open>KeyError\<close>.
\<close>

theorem performance_defaults_need_section:
  assumes "map_of kvs ''cleanup'' = Some (JObj cl)"
    and "map_of cl ''days_threshold'' \<noteq> None"
    and "map_of cl ''media_root'' \<noteq> None"
    and "block_ok kvs ''sonarr'' ''api_key'' ''host''"
    and "block_ok kvs ''plex'' ''url'' ''token''"
    and "map_of kvs ''sonarr'' \<noteq> None \<or> map_of kvs ''plex'' \<noteq> None"
  shows "(map_of kvs ''performance'' = Some (JObj pf) \<and>
          map_of pf ''parallel_processing'' = None \<and> map_of pf ''max_workers'' = None \<longrightarrow>
            (\<exists>c. load_config (Inr (JObj kvs)) = Inr c \<and>
                 parallel_processing c = JBool True \<and> max_workers c = JInt 4))
       \<and> (map_of kvs ''performance'' = None \<longrightarrow>
            load_config (Inr (JObj kvs)) =
              Inl [Lit ''Failed to load configuration: '', FmtExn (KeyError ''performance'')])"
proof (intro conjI impI)
  assume p: "map_of kvs ''performance'' = Some (JObj pf) \<and>
          map_of pf ''parallel_processing'' = None \<and> map_of pf ''max_workers'' = None"
  obtain dt mr where k: "map_of cl ''days_threshold'' = Some dt" "map_of cl ''media_root'' = Some mr"
    using assms(2,3) by auto
  obtain c0 where c0: "base_config (JObj kvs) = Inr c0" "parallel_processing c0 = JBool True"
      "max_workers c0 = JInt 4" "\<not> sonarr_enabled c0" "\<not> plex_enabled c0"
    using assms(1) k p by (simp add: base_config_def sub2_dict sub_get_dict dict_get_def)
  obtain c1 where c1: "add_sonarr (JObj kvs) c0 = Inr c1" "parallel_processing c1 = JBool True"
      "max_workers c1 = JInt 4" "\<not> plex_enabled c1"
      "sonarr_enabled c1 = (map_of kvs ''sonarr'' \<noteq> None)"
    using add_sonarr_ok [OF assms(4), of c0] c0 by auto
  obtain c2 where c2: "add_plex (JObj kvs) c1 = Inr c2" "parallel_processing c2 = JBool True"
      "max_workers c2 = JInt 4" "sonarr_enabled c2 = (map_of kvs ''sonarr'' \<noteq> None)"
      "plex_enabled c2 = (map_of kvs ''plex'' \<noteq> None)"
    using add_plex_ok [OF assms(5), of c1] c1 by auto
  have "load_config (Inr (JObj kvs)) = Inr c2"
    using c0(1) c1(1) c2(1,4,5) assms(6) by (simp add: load_config_def load_config_try_def)
  then show "\<exists>c. load_config (Inr (JObj kvs)) = Inr c \<and>
                 parallel_processing c = JBool True \<and> max_workers c = JInt 4"
    using c2 by simp
next
  assume p: "map_of kvs ''performance'' = None"
  obtain dt mr where k: "map_of cl ''days_threshold'' = Some dt" "map_of cl ''media_root'' = Some mr"
    using assms(2,3) by auto
  have "base_config (JObj kvs) = Inl (KeyError ''performance'')"
    using assms(1) k p by (simp add: base_config_def sub2_dict sub_get_dict) (simp add: sub_get_def)
  then show "load_config (Inr (JObj kvs)) =
              Inl [Lit ''Failed to load configuration: '', FmtExn (KeyError ''performance'')]"
    by (simp add: load_config_def load_config_try_def)
qed

theorem performance_defaults_need_section_witness:
  "(\<exists>c. load_config (Inr (JObj ex_doc_empty_performance)) = Inr c \<and>
        parallel_processing c = JBool True \<and> max_workers c = JInt 4)
   \<and> load_config (Inr (JObj (AList.delete ''performance'' ex_doc_empty_performance))) =
       Inl [Lit ''Failed to load configuration: '', FmtExn (KeyError ''performance'')]"
proof
  show "\<exists>c. load_config (Inr (JObj ex_doc_empty_performance)) = Inr c \<and>
        parallel_processing c = JBool True \<and> max_workers c = JInt 4"
    using performance_defaults_need_section
      [where kvs = ex_doc_empty_performance and pf = "[]"
         and cl = "[(''days_threshold'', JInt 30), (''media_root'', JStr ''/media'')]"]
    by (simp add: ex_doc_empty_performance_def ex_cleanup_block_def ex_sonarr_block_def
        block_ok_def)
next
  show "load_config (Inr (JObj (AList.delete ''performance'' ex_doc_empty_performance))) =
       Inl [Lit ''Failed to load configuration: '', FmtExn (KeyError ''performance'')]"
    using performance_defaults_need_section
      [where kvs = "AList.delete ''performance'' ex_doc_empty_performance"
         and cl = "[(''days_threshold'', JInt 30), (''media_root'', JStr ''/media'')]"]
    by (simp add: ex_doc_empty_performance_def ex_cleanup_block_def ex_sonarr_block_def
        block_ok_def)
qed

section \<open>Properties of a dry run\<close>

lemma unmutated_refl: "unmutated w w"
  by (simp add: unmutated_def)

lemma unmutated_trans: "unmutated w w1 \<Longrightarrow> unmutated w1 w2 \<Longrightarrow> unmutated w w2"
  by (auto simp: unmutated_def)

lemma unmutated_log_info: "unmutated w w1 \<Longrightarrow> unmutated w (log_info m w1)"
  by (simp add: unmutated_def log_info_def)

lemma unmutated_log_error: "unmutated w w1 \<Longrightarrow> unmutated w (log_error m w1)"
  by (simp add: unmutated_def log_error_def)

lemma unmutated_get: "issue b (HttpGet u p h) w = (r, w1) \<Longrightarrow> unmutated w w1"
  by (auto simp: unmutated_def issue_def)

lemma unmutated_get_daily_series: "unmutated w (snd (get_daily_series m b w))"
proof -
  obtain r w1 where i: "issue b (series_request m) w = (r, w1)" by (meson surj_pair)
  then have "unmutated w w1"
    unfolding series_request_def by (rule unmutated_get)
  then show ?thesis
    using i by (simp add: get_daily_series_def unmutated_log_error split: sum.split)
qed

lemma unmutated_get_episodes:
  "unmutated w (snd (get_episodes_to_delete m b series_id threshold_date w))"
proof -
  obtain r w1 where i: "issue b (episode_request m series_id) w = (r, w1)" by (meson surj_pair)
  then have "unmutated w w1"
    unfolding episode_request_def by (rule unmutated_get)
  then show ?thesis
    using i by (simp add: get_episodes_to_delete_def unmutated_log_error split: sum.split)
qed

lemma unmutated_process_dry: "unmutated w (snd (process_episode m b ep True w))"
  by (simp add: process_episode_def unmutated_log_info unmutated_refl)

lemma unmutated_executor_map:
  assumes "\<And>e w. unmutated w (snd (f e w))"
  shows "unmutated w (snd (executor_map f es w))"
proof (induction es arbitrary: w)
  case Nil
  show ?case by (simp add: unmutated_refl)
next
  case (Cons e es)
  obtain r w1 where f: "f e w = (r, w1)" by (meson surj_pair)
  obtain rs w2 where m: "executor_map f es w1 = (rs, w2)" by (meson surj_pair)
  have "unmutated w w1" using assms [of w e] f by simp
  moreover have "unmutated w1 w2" using Cons.IH [of w1] m by simp
  ultimately show ?case using f m by (simp add: unmutated_trans [of w w1 w2])
qed

lemma unmutated_parallel:
  assumes "\<And>e w. unmutated w (snd (f e w))"
  shows "unmutated w (snd (parallel_batch f es n w))"
proof -
  obtain rs w1 where m: "executor_map f es w = (rs, w1)" by (meson surj_pair)
  then have "unmutated w w1"
    using unmutated_executor_map [of f w es, OF assms] by simp
  then show ?thesis using m by (simp add: parallel_batch_def)
qed

lemma unmutated_process_series:
  assumes "truthy (dry_run cfg)"
  shows "unmutated w (snd (process_series m b cfg threshold_date serie n w))"
proof (cases "map_of serie ''id''")
  case None
  then show ?thesis by (simp add: process_series_def unmutated_refl)
next
  case (Some sid)
  obtain r w1 where g: "get_episodes_to_delete m b sid threshold_date w = (r, w1)"
    by (meson surj_pair)
  then have u1: "unmutated w w1"
    using unmutated_get_episodes [of w m b sid threshold_date] by simp
  show ?thesis
  proof (cases r)
    case (Inl e)
    then show ?thesis using Some g u1 by (simp add: process_series_def)
  next
    case (Inr episodes)
    let ?f = "\<lambda>ep. process_episode m b ep True"
    have f: "unmutated v (snd (?f e v))" for e v
      by (rule unmutated_process_dry)
    show ?thesis
    proof (cases "episodes = [] \<or> map_of serie ''title'' = None")
      case True
      then show ?thesis using Some g u1 Inr by (auto simp: process_series_def)
    next
      case False
      then obtain t where t: "map_of serie ''title'' = Some t" and ne: "episodes \<noteq> []"
        by auto
      let ?w2 = "log_info (processing_line episodes t) w1"
      have u2: "unmutated w ?w2" using u1 by (rule unmutated_log_info)
      have p: "unmutated w (snd (parallel_batch ?f episodes n ?w2))"
        using u2 unmutated_parallel [of ?f ?w2 episodes n, OF f] by (rule unmutated_trans)
      then have q: "unmutated w (snd (sequential_batch ?f episodes n ?w2))"
        by (simp add: sequential_is_parallel)
      show ?thesis
        using Some g Inr t ne assms u2 p q
        by (auto simp: process_series_def Let_def split: option.split prod.split)
    qed
  qed
qed

lemma unmutated_series_loop:
  assumes "truthy (dry_run cfg)"
  shows "unmutated w (snd (series_loop m b cfg threshold_date series n w))"
proof (induction series arbitrary: n w)
  case Nil
  show ?case by (simp add: unmutated_refl)
next
  case (Cons serie rest)
  obtain r w1 where p: "process_series m b cfg threshold_date serie n w = (r, w1)"
    by (meson surj_pair)
  then have u: "unmutated w w1"
    using unmutated_process_series [OF assms, of w m b threshold_date serie n] by simp
  show ?case
  proof (cases r)
    case (Inl e)
    then show ?thesis using p u by simp
  next
    case (Inr k)
    have "unmutated w1 (snd (series_loop m b cfg threshold_date rest k w1))"
      by (rule Cons.IH)
    with u have "unmutated w (snd (series_loop m b cfg threshold_date rest k w1))"
      by (rule unmutated_trans)
    then show ?thesis using p Inr by simp
  qed
qed

lemma unmutated_sonarr_phase:
  assumes "truthy (dry_run cfg)"
  shows "unmutated w (snd (sonarr_phase cfg env threshold_date w))"
proof (cases "sonarr_enabled cfg")
  case False
  then show ?thesis by (simp add: sonarr_phase_def unmutated_refl)
next
  case True
  let ?w0 = "log_info [Lit ''Processing Sonarr content...''] w"
  obtain r w1 where g: "get_daily_series (sonarr_of cfg) (sonarr_backend env) ?w0 = (r, w1)"
    by (meson surj_pair)
  have "unmutated w ?w0" using unmutated_refl by (rule unmutated_log_info)
  moreover have "unmutated ?w0 w1"
    using unmutated_get_daily_series [of ?w0 "sonarr_of cfg" "sonarr_backend env"] g by simp
  ultimately have u: "unmutated w w1" by (rule unmutated_trans)
  show ?thesis
  proof (cases r)
    case (Inl e)
    then show ?thesis using True g u by (simp add: sonarr_phase_def)
  next
    case (Inr series)
    have "unmutated w1 (snd (series_loop (sonarr_of cfg) (sonarr_backend env) cfg
        threshold_date series 0 w1))"
      using assms by (rule unmutated_series_loop)
    with u have "unmutated w (snd (series_loop (sonarr_of cfg) (sonarr_backend env) cfg
        threshold_date series 0 w1))"
      by (rule unmutated_trans)
    then show ?thesis using True g Inr by (simp add: sonarr_phase_def)
  qed
qed

lemma unmutated_plex_phase:
  assumes "truthy (dry_run cfg)"
  shows "unmutated w (snd (plex_phase cfg env w))"
  using assms
  by (simp add: plex_phase_def refresh_libraries_def Let_def unmutated_refl unmutated_log_info
      split: option.split)

lemma cleanup_dry_run:
  "truthy (dry_run cfg) \<Longrightarrow> cleanup_empty_directories cfg w = w"
  by (simp add: cleanup_empty_directories_def)

lemma unmutated_run:
  assumes "truthy (dry_run cfg)"
  shows "unmutated w (snd (run cfg env threshold_date w))"
proof -
  let ?w0 = "log_info [Lit ''Starting media cleanup process...''] w"
  obtain r w1 where s: "sonarr_phase cfg env threshold_date ?w0 = (r, w1)" by (meson surj_pair)
  have "unmutated w ?w0" using unmutated_refl by (rule unmutated_log_info)
  moreover have "unmutated ?w0 w1"
    using unmutated_sonarr_phase [OF assms, of ?w0 env threshold_date] s by simp
  ultimately have u1: "unmutated w w1" by (rule unmutated_trans)
  show ?thesis
  proof (cases r)
    case (Inl e)
    then show ?thesis using s u1 by (simp add: run_def)
  next
    case (Inr n)
    obtain x w2 where p: "plex_phase cfg env w1 = (x, w2)" by (meson surj_pair)
    have "unmutated w1 w2" using unmutated_plex_phase [OF assms, of w1 env] p by simp
    with u1 have u2: "unmutated w w2" by (rule unmutated_trans)
    then have "unmutated w (log_info (summary_line cfg n) w2)" by (rule unmutated_log_info)
    then show ?thesis
      using s Inr p u2 assms by (cases x) (simp_all add: run_def cleanup_dry_run)
  qed
qed

lemma ex_run_total:
  "fst (run ex_config_dry ex_environment ex_threshold ex_world) = Inr 1"
  by (simp add: run_def sonarr_phase_def plex_phase_def get_daily_series_def issue_def
      daily_series_of_def fetch_json_def raise_for_status_def ok_response_def series_request_def
      ex_backend_def ex_environment_def ex_config_dry_def ex_config_def ex_daily_def
      ex_standard_def process_series_def get_episodes_to_delete_def episodes_of_def
      episode_request_def eligible_def ex_E1_def ex_E2_def ex_E3_def ex_air_dates
      ex_threshold_def dict_get_def parallel_batch_def process_episode_def sum_true_def
      log_info_def Let_def cleanup_empty_directories_def sonarr_of_def refresh_libraries_def)

text \<open>
  Claim C5. In every run with \<^verbatim>\<open>dry_run\<close> true nothing is mutated, whatever the library
  manager and the media server answer and however the run ends: every request issued
  during the run is a read (no update and no delete of an episode file), no library
  section is updated, and the directory tree is left as it is, also when
  \<^verbatim>\<open>delete_empty_dirs\<close> is set.
\<close>

theorem dry_run_mutates_nothing:
  assumes "truthy (dry_run cfg)"
  shows "(\<exists>new. calls (snd (run cfg env threshold_date w)) = calls w @ new \<and>
            list_all (\<lambda>r. \<not> is_mutating r) new)
     \<and> updated (snd (run cfg env threshold_date w)) = updated w
     \<and> fs (snd (run cfg env threshold_date w)) = fs w"
  using unmutated_run [OF assms, of w env threshold_date] by (simp add: unmutated_def)

theorem dry_run_mutates_nothing_witness:
  "truthy (dry_run ex_config_dry)
   \<and> (\<exists>new. calls (snd (run ex_config_dry ex_environment ex_threshold ex_world)) =
          calls ex_world @ new \<and> list_all (\<lambda>r. \<not> is_mutating r) new)
   \<and> fst (run ex_config_dry ex_environment ex_threshold ex_world) = Inr 1
   \<and> updated (snd (run ex_config_dry ex_environment ex_threshold ex_world)) = []
   \<and> fs (snd (run ex_config_dry ex_environment ex_threshold ex_world)) =
       Dir None None [(''Show'', Dir None None [])]"
proof -
  have t: "truthy (dry_run ex_config_dry)"
    by (simp add: ex_config_dry_def)
  show ?thesis
    using t dry_run_mutates_nothing [OF t, of ex_environment ex_threshold ex_world]
      ex_run_total
    by (simp add: ex_world_def)
qed

section \<open>Properties of the directory pruning\<close>














section \<open>The two branches of the orchestrator\<close>

lemma process_series_branches:
  assumes "executor_check (max_workers cfg) = None" and "truthy pp" and "\<not> truthy sq"
  shows "process_series m b (cfg\<lparr>parallel_processing := pp\<rparr>) threshold_date serie n w =
         process_series m b (cfg\<lparr>parallel_processing := sq\<rparr>) threshold_date serie n w"
  using assms
  by (simp add: process_series_def sequential_is_parallel Let_def
      split: option.split prod.split sum.split)

lemma series_loop_branches:
  assumes "executor_check (max_workers cfg) = None" and "truthy pp" and "\<not> truthy sq"
  shows "series_loop m b (cfg\<lparr>parallel_processing := pp\<rparr>) threshold_date series n w =
         series_loop m b (cfg\<lparr>parallel_processing := sq\<rparr>) threshold_date series n w"
proof (induction series arbitrary: n w)
  case Nil
  show ?case by simp
next
  case (Cons serie rest)
  show ?case
    using Cons.IH process_series_branches [OF assms, of m b threshold_date serie n w]
    by (simp split: prod.split sum.split)
qed

lemma run_branches:
  assumes "executor_check (max_workers cfg) = None" and "truthy pp" and "\<not> truthy sq"
  shows "run (cfg\<lparr>parallel_processing := pp\<rparr>) env threshold_date w =
         run (cfg\<lparr>parallel_processing := sq\<rparr>) env threshold_date w"
proof -
  have s: "sonarr_phase (cfg\<lparr>parallel_processing := pp\<rparr>) env threshold_date v =
           sonarr_phase (cfg\<lparr>parallel_processing := sq\<rparr>) env threshold_date v" for v
    using series_loop_branches [OF assms]
    by (simp add: sonarr_phase_def sonarr_of_def split: prod.split sum.split)
  have p: "plex_phase (cfg\<lparr>parallel_processing := pp\<rparr>) env v =
           plex_phase (cfg\<lparr>parallel_processing := sq\<rparr>) env v" for v
    by (simp add: plex_phase_def Let_def split: option.split)
  have c: "cleanup_empty_directories (cfg\<lparr>parallel_processing := pp\<rparr>) v =
           cleanup_empty_directories (cfg\<lparr>parallel_processing := sq\<rparr>) v" for v
    by (simp add: cleanup_empty_directories_def cleanup_walk_def)
  have l: "summary_line (cfg\<lparr>parallel_processing := pp\<rparr>) k =
           summary_line (cfg\<lparr>parallel_processing := sq\<rparr>) k" for k
    by (simp add: summary_line_def)
  show ?thesis
    by (simp add: run_def s p c l Let_def split: prod.split sum.split option.split)
qed

lemmas run_eval = run_def sonarr_phase_def plex_phase_def get_daily_series_def issue_def
  daily_series_of_def fetch_json_def raise_for_status_def ok_response_def series_request_def
  ex_backend_def ex_config_def ex_daily_def ex_standard_def process_series_def
  get_episodes_to_delete_def episodes_of_def episode_request_def eligible_def ex_E1_def
  ex_E2_def ex_E3_def ex_air_dates ex_threshold_def dict_get_def parallel_batch_def
  process_episode_def unmonitor_and_delete_def sum_true_def log_info_def Let_def sonarr_of_def

text \<open>
  Claim C10 says that the parallel branch and the sequential branch of the orchestrator
  add the same amount to the counter for every batch. The parallel branch first builds
  the pool, and \<^verbatim>\<open>ThreadPoolExecutor\<close> raises when \<^verbatim>\<open>max_workers\<close> is not above zero:
  with \<^verbatim>\<open>max_workers\<close> 0 and one eligible episode, the parallel branch ends the run
  with \<^verbatim>\<open>ValueError\<close> where the sequential branch counts 1.
\<close>

theorem pool_of_no_workers_ends_the_run:
  "fst (process_series ex_manager ex_backend (ex_config\<lparr>max_workers := JInt 0\<rparr>)
          ex_threshold ex_daily 0 ex_world) =
     Inl (ValueError ''max_workers must be greater than 0'')
   \<and> fst (process_series ex_manager ex_backend
          (ex_config\<lparr>max_workers := JInt 0, parallel_processing := JBool False\<rparr>)
          ex_threshold ex_daily 0 ex_world) = Inr 1
   \<and> fst (run (ex_config\<lparr>max_workers := JInt 0\<rparr>)
          \<lparr>sonarr_backend = ex_backend, plex = None\<rparr> ex_threshold ex_world) =
     Inl (ValueError ''max_workers must be greater than 0'')
   \<and> fst (run (ex_config\<lparr>max_workers := JInt 0, parallel_processing := JBool False\<rparr>)
          \<lparr>sonarr_backend = ex_backend, plex = None\<rparr> ex_threshold ex_world) = Inr 1"
  by (simp add: run_eval)

text \<open>
  Claim C10, amended. For every batch, both ways of counting add to the counter the
  number of true results among the outcomes of the calls: the parallel one counts them in
  the collected list, the sequential one increments after each call; for a fixed vector
  of outcomes they give the same total. In the orchestrator, whenever the pool can be
  built (\<^verbatim>\<open>max_workers\<close> is \<^verbatim>\<open>None\<close> or above zero), the step for one series and the
  whole run give the same result, the count or the exception that ends them, with the
  parallel branch as with the sequential branch (the calls of the pool taken in the order
  of the episodes).
\<close>

theorem parallel_sequential_same_total:
  "fst (parallel_batch f episodes total_processed u) =
     total_processed + sum_true (fst (executor_map f episodes u))
   \<and> fst (sequential_batch f episodes total_processed u) =
     total_processed + sum_true (fst (executor_map f episodes u))
   \<and> fst (parallel_batch (\<lambda>r u. (r, u)) outcomes total_processed ()) =
     fst (sequential_batch (\<lambda>r u. (r, u)) outcomes total_processed ())
   \<and> (executor_check (max_workers cfg) = None \<and> truthy pp \<and> \<not> truthy sq \<longrightarrow>
        fst (process_series m b (cfg\<lparr>parallel_processing := pp\<rparr>) threshold_date serie
               total_processed w) =
        fst (process_series m b (cfg\<lparr>parallel_processing := sq\<rparr>) threshold_date serie
               total_processed w)
        \<and> fst (run (cfg\<lparr>parallel_processing := pp\<rparr>) env threshold_date w) =
          fst (run (cfg\<lparr>parallel_processing := sq\<rparr>) env threshold_date w))"
proof (intro conjI impI)
  show "fst (parallel_batch f episodes total_processed u) =
     total_processed + sum_true (fst (executor_map f episodes u))"
    by (simp add: parallel_batch_def split: prod.split)
  then show "fst (sequential_batch f episodes total_processed u) =
     total_processed + sum_true (fst (executor_map f episodes u))"
    by (simp add: sequential_is_parallel)
  show "fst (parallel_batch (\<lambda>r u. (r, u)) outcomes total_processed ()) =
     fst (sequential_batch (\<lambda>r u. (r, u)) outcomes total_processed ())"
    by (simp add: sequential_is_parallel)
next
  assume a: "executor_check (max_workers cfg) = None \<and> truthy pp \<and> \<not> truthy sq"
  show "fst (process_series m b (cfg\<lparr>parallel_processing := pp\<rparr>) threshold_date serie
               total_processed w) =
        fst (process_series m b (cfg\<lparr>parallel_processing := sq\<rparr>) threshold_date serie
               total_processed w)"
    using a process_series_branches [of cfg pp sq m b threshold_date serie total_processed w]
    by simp
  show "fst (run (cfg\<lparr>parallel_processing := pp\<rparr>) env threshold_date w) =
          fst (run (cfg\<lparr>parallel_processing := sq\<rparr>) env threshold_date w)"
    using a run_branches [of cfg pp sq env threshold_date w] by simp
qed

theorem parallel_sequential_same_total_witness:
  "executor_check (max_workers ex_config) = None
   \<and> fst (run (ex_config\<lparr>parallel_processing := JBool True\<rparr>)
          \<lparr>sonarr_backend = ex_backend, plex = None\<rparr> ex_threshold ex_world) =
     fst (run (ex_config\<lparr>parallel_processing := JBool False\<rparr>)
          \<lparr>sonarr_backend = ex_backend, plex = None\<rparr> ex_threshold ex_world)
   \<and> fst (run (ex_config\<lparr>parallel_processing := JBool False\<rparr>)
          \<lparr>sonarr_backend = ex_backend, plex = None\<rparr> ex_threshold ex_world) = Inr 1"
proof -
  have c: "executor_check (max_workers ex_config) = None"
    by (simp add: ex_config_def)
  have "fst (run (ex_config\<lparr>parallel_processing := JBool False\<rparr>)
          \<lparr>sonarr_backend = ex_backend, plex = None\<rparr> ex_threshold ex_world) = Inr 1"
    by (simp add: run_eval)
  then show ?thesis
    using c parallel_sequential_same_total
      [where cfg = ex_config and pp = "JBool True" and sq = "JBool False"
         and env = "\<lparr>sonarr_backend = ex_backend, plex = None\<rparr>"
         and threshold_date = ex_threshold and w = ex_world
         and f = "\<lambda>(r::bool) (u::unit). (r, u)" and episodes = "[]" and u = "()"
         and outcomes = "[]" and total_processed = 0 and m = ex_manager and b = ex_backend
         and serie = ex_daily]
    by simp
qed

end
